theory Spec2Isabelle
  imports Main
begin

section \<open>Exceptions\<close>

text \<open>
  Every exception the modelled code can raise is a value; a function that can raise returns
  \<open>exn + 'a\<close>, with \<open>Inl\<close> for the raised exception. \<open>HTTPException\<close> carries the status
  code, the detail text and the headers, as fastapi's class does. \<open>JWTError\<close> and its subclass
  \<open>ExpiredSignatureError\<close> come from the JOSE library, \<open>UnknownHashError\<close> from the
  password-hashing library, \<open>UnpicklingError\<close> from pickle, \<open>KeyError\<close> from indexing a
  dictionary at a key it does not have, and \<open>OverflowError\<close> and \<open>ValueError\<close> from the
  datetime arithmetic.
\<close>

datatype exn =
    HTTPException (status_code: nat) (detail: string) (headers: "(string \<times> string) list")
  | JWTError
  | ExpiredSignatureError
  | KeyError string
  | OverflowError
  | ValueError
  | UnknownHashError
  | UnpicklingError

text \<open>What \<^verbatim>\<open>except JWTError\<close> catches: the class and its subclasses.\<close>

fun is_JWTError :: "exn \<Rightarrow> bool" where
  "is_JWTError JWTError = True"
| "is_JWTError ExpiredSignatureError = True"
| "is_JWTError _ = False"

section \<open>The datetime module, as the service calls it\<close>

text \<open>
  \<^verbatim>\<open>datetime\<close> is Python's standard library and not part of the sources; this section gives
  the calls the service makes the behaviour the library documents. A naive UTC datetime is
  its number of microseconds since the epoch and a timedelta a number of microseconds.
  \<^verbatim>\<open>datetime.min\<close> is 0001-01-01 00:00:00 and \<^verbatim>\<open>datetime.max\<close> is 9999-12-31 23:59:59.999999.
\<close>

type_synonym datetime = int

type_synonym timedelta = int

definition datetime_min :: datetime where
  "datetime_min = - 62135596800 * 1000000"

definition datetime_max :: datetime where
  "datetime_max = 253402300799 * 1000000 + 999999"

text \<open>
  A float, by what Python's truth test and the timedelta constructor make of it.
  \<open>Finite s us\<close> is a finite float that \<^verbatim>\<open>timedelta(seconds=...)\<close> turns into \<open>s\<close> seconds and
  \<open>us\<close> microseconds, the fraction rounded to the nearest microsecond: \<^verbatim>\<open>0.0\<close> is
  \<open>Finite 0 0\<close>, \<^verbatim>\<open>90.0\<close> (and the int \<^verbatim>\<open>90\<close>) is \<open>Finite 90 0\<close>, \<^verbatim>\<open>0.5\<close> is
  \<open>Finite 0 500000\<close>, \<^verbatim>\<open>-1.25\<close> is \<open>Finite (-1) (-250000)\<close>. \<open>Tiny\<close> is a float other than
  zero that rounds to zero microseconds, such as \<^verbatim>\<open>1e-9\<close>: unlike \<^verbatim>\<open>0.0\<close> it is true.
  \<open>NaN\<close>, \<open>PosInf\<close> and \<open>NegInf\<close> are \<^verbatim>\<open>nan\<close>, \<^verbatim>\<open>inf\<close> and \<^verbatim>\<open>-inf\<close>.
\<close>

datatype pyfloat = Finite int int | Tiny | NaN | PosInf | NegInf

text \<open>\<^verbatim>\<open>bool(x)\<close>: a float is false when it is zero, and \<^verbatim>\<open>nan\<close> is true.\<close>

fun float_bool :: "pyfloat \<Rightarrow> bool" where
  "float_bool (Finite s us) = (\<not> (s = 0 \<and> us = 0))"
| "float_bool Tiny = True"
| "float_bool NaN = True"
| "float_bool PosInf = True"
| "float_bool NegInf = True"

text \<open>
  \<^verbatim>\<open>timedelta(seconds=x)\<close>: \<^verbatim>\<open>ValueError\<close> on \<^verbatim>\<open>nan\<close>, \<^verbatim>\<open>OverflowError\<close> on an infinity and on
  a value of more than 999999999 days in either direction.
\<close>

definition timedelta_in_range :: "timedelta \<Rightarrow> bool" where
  "timedelta_in_range td =
     (- 999999999 \<le> td div 86400000000 \<and> td div 86400000000 \<le> 999999999)"

fun timedelta_seconds :: "pyfloat \<Rightarrow> exn + timedelta" where
  "timedelta_seconds (Finite s us) =
     (if timedelta_in_range (s * 1000000 + us) then Inr (s * 1000000 + us)
      else Inl OverflowError)"
| "timedelta_seconds Tiny = Inr 0"
| "timedelta_seconds NaN = Inl ValueError"
| "timedelta_seconds PosInf = Inl OverflowError"
| "timedelta_seconds NegInf = Inl OverflowError"

text \<open>\<^verbatim>\<open>timedelta(minutes=m)\<close> and \<^verbatim>\<open>timedelta(days=d)\<close>, for the constants the service uses.\<close>

definition timedelta_minutes :: "int \<Rightarrow> timedelta" where
  "timedelta_minutes m = m * 60 * 1000000"

definition timedelta_days :: "int \<Rightarrow> timedelta" where
  "timedelta_days d = d * 86400 * 1000000"

text \<open>\<^verbatim>\<open>d + td\<close>: \<^verbatim>\<open>OverflowError\<close> when the sum is not a datetime.\<close>

definition datetime_in_range :: "int \<Rightarrow> bool" where
  "datetime_in_range d = (datetime_min \<le> d \<and> d \<le> datetime_max)"

definition datetime_add :: "datetime \<Rightarrow> timedelta \<Rightarrow> exn + datetime" where
  "datetime_add d td = (if datetime_in_range (d + td) then Inr (d + td) else Inl OverflowError)"

text \<open>\<^verbatim>\<open>timegm(d.utctimetuple())\<close>: the whole seconds of a datetime, the microseconds dropped.\<close>

definition timegm :: "datetime \<Rightarrow> int" where
  "timegm d = d div 1000000"

section \<open>The JOSE library, as the service calls it\<close>

text \<open>
  \<^verbatim>\<open>jose.jwt\<close> is a third-party library and not part of the sources; this section gives
  \<^verbatim>\<open>jwt.encode\<close> and \<^verbatim>\<open>jwt.decode\<close> the behaviour the library documents, as far as the
  service's calls reach it.

  The token claims. The service writes the keys \<^verbatim>\<open>sub\<close>, \<^verbatim>\<open>scope\<close>, \<^verbatim>\<open>exp\<close> and \<^verbatim>\<open>iat\<close>
  and reads the first two; the dictionary is modelled on these four keys, an absent key
  being \<open>None\<close>, with the subject and the scope strings and the two times integers. Times
  are POSIX timestamps in whole seconds: \<^verbatim>\<open>jwt.encode\<close> writes a datetime claim as
  \<^verbatim>\<open>timegm(d.utctimetuple())\<close> and \<^verbatim>\<open>jwt.decode\<close> reads the clock the same way, so both
  sides drop the fraction of a second.
\<close>

record claims =
  sub :: "string option"
  scope :: "string option"
  exp :: "int option"
  iat :: "int option"

text \<open>The HMAC algorithms of the library; the configured one is \<^verbatim>\<open>HS256\<close>.\<close>

datatype algorithm = HS256 | HS384 | HS512

text \<open>
  A token string, by what the library makes of it: the compact serialisation of a claim
  dictionary signed with a key under an algorithm, or any string that is no such
  serialisation. A signature verifies under the key it was made with and under no other.
\<close>

datatype token =
    Signed (signing_key: string) (signing_alg: algorithm) (signed_claims: claims)
  | Malformed string

definition jwt_encode :: "claims \<Rightarrow> string \<Rightarrow> algorithm \<Rightarrow> token" where
  "jwt_encode to_encode key alg = Signed key alg to_encode"

text \<open>
  \<^verbatim>\<open>jwt.decode(token, key, algorithms=...)\<close> at clock reading \<open>now\<close>, which is the
  library's \<^verbatim>\<open>timegm(datetime.utcnow().utctimetuple())\<close>, in whole seconds: the signature check
  (a malformed string, an algorithm that is not allowed and a signature that does not
  verify are all \<^verbatim>\<open>JWTError\<close>), then the claim validation, which for the four keys is the
  expiry test \<^verbatim>\<open>exp < now\<close> raising \<^verbatim>\<open>ExpiredSignatureError\<close>.
\<close>

fun jwt_decode :: "token \<Rightarrow> string \<Rightarrow> algorithm list \<Rightarrow> int \<Rightarrow> exn + claims" where
  "jwt_decode (Malformed s) key algorithms now = Inl JWTError"
| "jwt_decode (Signed k alg c) key algorithms now =
     (if alg \<notin> set algorithms then Inl JWTError
      else if k \<noteq> key then Inl JWTError
      else (case exp c of
              None \<Rightarrow> Inr c
            | Some e \<Rightarrow> if e < now then Inl ExpiredSignatureError else Inr c))"

section \<open>The password-hashing library, as the service calls it\<close>

text \<open>
  \<^verbatim>\<open>passlib\<close> is a third-party library and not part of the sources; this section gives
  \<^verbatim>\<open>CryptContext.verify\<close> the behaviour the library documents.
  \<^verbatim>\<open>CryptContext(schemes=["bcrypt"]).verify(secret, hash)\<close> first identifies the scheme of the
  hash, which for bcrypt is the test that the hash starts with one of the scheme's
  identifiers, and raises \<^verbatim>\<open>UnknownHashError\<close> when no configured scheme claims the hash;
  only then does the bcrypt handler parse the hash and compare digests, returning a
  boolean or raising on a hash it cannot parse. The handler is a field of the context,
  since the digest itself is not modelled.
\<close>

record CryptContext =
  handler_verify :: "string \<Rightarrow> string \<Rightarrow> exn + bool"

definition bcrypt_ident_values :: "string list" where
  "bcrypt_ident_values = [''$2$'', ''$2a$'', ''$2x$'', ''$2y$'', ''$2b$'']"

definition bcrypt_identify :: "string \<Rightarrow> bool" where
  "bcrypt_identify hash = list_ex (\<lambda>ident. take (length ident) hash = ident) bcrypt_ident_values"

definition CryptContext_verify :: "CryptContext \<Rightarrow> string \<Rightarrow> string \<Rightarrow> exn + bool" where
  "CryptContext_verify ctx secret hash =
     (if bcrypt_identify hash then handler_verify ctx secret hash else Inl UnknownHashError)"

section \<open>services/auth.py\<close>

text \<open>
  The class attributes of \<^verbatim>\<open>Auth\<close> that the token methods read, and the instance
  \<^verbatim>\<open>auth_service\<close> with the values \<^verbatim>\<open>conf/config.py\<close> gives them. The Redis client \<^verbatim>\<open>r\<close> is
  state and is passed to \<^verbatim>\<open>get_current_user\<close> separately; \<^verbatim>\<open>verify_password\<close> reads only
  \<^verbatim>\<open>pwd_context\<close> and takes it in place of \<^verbatim>\<open>self\<close>.
\<close>

record Auth =
  SECRET_KEY :: string
  ALGORITHM :: algorithm

definition auth_service :: Auth where
  "auth_service = \<lparr>SECRET_KEY = ''secret_key'', ALGORITHM = HS256\<rparr>"

definition verify_password :: "CryptContext \<Rightarrow> string \<Rightarrow> string \<Rightarrow> exn + bool" where
  "verify_password pwd_context plain_password hashed_password =
     CryptContext_verify pwd_context plain_password hashed_password"

text \<open>
  The token issuers. \<^verbatim>\<open>datetime.utcnow()\<close> is read twice in each, once for \<^verbatim>\<open>expire\<close> and once
  for \<^verbatim>\<open>iat\<close>; the two readings are the arguments \<open>utcnow\<close> and \<open>utcnow_iat\<close>, datetimes in
  microseconds. \<^verbatim>\<open>if expires_delta:\<close> is Python's truth test: \<^verbatim>\<open>None\<close> and a zero both take
  the default. An exception raised while \<^verbatim>\<open>expire\<close> is computed leaves the function, and no
  token is issued. \<^verbatim>\<open>jwt.encode\<close> writes the datetimes under \<^verbatim>\<open>iat\<close> and \<^verbatim>\<open>exp\<close> as
  \<^verbatim>\<open>timegm(d.utctimetuple())\<close>; here this is done where the claims are set.
\<close>

definition create_email_token :: "Auth \<Rightarrow> claims \<Rightarrow> datetime \<Rightarrow> datetime \<Rightarrow> exn + token" where
  "create_email_token self data utcnow utcnow_iat =
     (case datetime_add utcnow (timedelta_days 7) of
        Inl e \<Rightarrow> Inl e
      | Inr expire \<Rightarrow>
          (let to_encode = data\<lparr>iat := Some (timegm utcnow_iat), exp := Some (timegm expire)\<rparr>
           in Inr (jwt_encode to_encode (SECRET_KEY self) (ALGORITHM self))))"

definition create_access_token ::
  "Auth \<Rightarrow> claims \<Rightarrow> pyfloat option \<Rightarrow> datetime \<Rightarrow> datetime \<Rightarrow> exn + token" where
  "create_access_token self data expires_delta utcnow utcnow_iat =
     (case (case expires_delta of
              None \<Rightarrow> datetime_add utcnow (timedelta_minutes 15)
            | Some x \<Rightarrow>
                if float_bool x
                then (case timedelta_seconds x of
                        Inl e \<Rightarrow> Inl e
                      | Inr td \<Rightarrow> datetime_add utcnow td)
                else datetime_add utcnow (timedelta_minutes 15)) of
        Inl e \<Rightarrow> Inl e
      | Inr expire \<Rightarrow>
          (let to_encode = data\<lparr>iat := Some (timegm utcnow_iat), exp := Some (timegm expire),
                                 scope := Some ''access_token''\<rparr>
           in Inr (jwt_encode to_encode (SECRET_KEY self) (ALGORITHM self))))"

definition create_refresh_token ::
  "Auth \<Rightarrow> claims \<Rightarrow> pyfloat option \<Rightarrow> datetime \<Rightarrow> datetime \<Rightarrow> exn + token" where
  "create_refresh_token self data expires_delta utcnow utcnow_iat =
     (case (case expires_delta of
              None \<Rightarrow> datetime_add utcnow (timedelta_days 7)
            | Some x \<Rightarrow>
                if float_bool x
                then (case timedelta_seconds x of
                        Inl e \<Rightarrow> Inl e
                      | Inr td \<Rightarrow> datetime_add utcnow td)
                else datetime_add utcnow (timedelta_days 7)) of
        Inl e \<Rightarrow> Inl e
      | Inr expire \<Rightarrow>
          (let to_encode = data\<lparr>iat := Some (timegm utcnow_iat), exp := Some (timegm expire),
                                 scope := Some ''refresh_token''\<rparr>
           in Inr (jwt_encode to_encode (SECRET_KEY self) (ALGORITHM self))))"

text \<open>
  \<^verbatim>\<open>payload["sub"]\<close> and \<^verbatim>\<open>payload['scope']\<close> index the dictionary and raise \<^verbatim>\<open>KeyError\<close> on an
  absent key. The \<^verbatim>\<open>try\<close> blocks catch \<^verbatim>\<open>JWTError\<close> only, so a \<^verbatim>\<open>KeyError\<close> and an
  \<^verbatim>\<open>HTTPException\<close> raised inside them leave the function as they are.
\<close>

definition get_email_from_token :: "Auth \<Rightarrow> token \<Rightarrow> int \<Rightarrow> exn + string" where
  "get_email_from_token self token now =
     (case jwt_decode token (SECRET_KEY self) [ALGORITHM self] now of
        Inl e \<Rightarrow>
          if is_JWTError e
          then Inl (HTTPException 422 ''Invalid token for email verification'' [])
          else Inl e
      | Inr payload \<Rightarrow>
          (case sub payload of
             None \<Rightarrow> Inl (KeyError ''sub'')
           | Some email \<Rightarrow> Inr email))"

definition decode_refresh_token :: "Auth \<Rightarrow> token \<Rightarrow> int \<Rightarrow> exn + string" where
  "decode_refresh_token self refresh_token now =
     (case jwt_decode refresh_token (SECRET_KEY self) [ALGORITHM self] now of
        Inl e \<Rightarrow>
          if is_JWTError e
          then Inl (HTTPException 401 ''Could not validate credentials'' [])
          else Inl e
      | Inr payload \<Rightarrow>
          (case scope payload of
             None \<Rightarrow> Inl (KeyError ''scope'')
           | Some sc \<Rightarrow>
               if sc = ''refresh_token''
               then (case sub payload of
                       None \<Rightarrow> Inl (KeyError ''sub'')
                     | Some email \<Rightarrow> Inr email)
               else Inl (HTTPException 401 ''Invalid scope for token'' [])))"

section \<open>The user table and the cache\<close>

text \<open>
  Modelled from the spec: the ORM class \<^verbatim>\<open>UserAuth\<close> of \<^verbatim>\<open>database/models.py\<close> is not among
  the sources; the record has the attributes the spec gives the Principal (email, password
  hash, confirmed flag, refresh token, avatar URL). The table is the list of its rows.
\<close>

record UserAuth =
  email :: string
  password :: string
  confirmed :: bool
  refresh_token :: "string option"
  avatar :: "string option"

text \<open>\<^verbatim>\<open>db.query(UserAuth).filter(UserAuth.email == email).first()\<close>\<close>

definition get_user_by_email :: "string \<Rightarrow> UserAuth list \<Rightarrow> UserAuth option" where
  "get_user_by_email email' db = find (\<lambda>u. email u = email') db"

text \<open>
  Cached values are byte strings: the pickle of a user, or bytes that are no pickle.
  \<^verbatim>\<open>pickle.loads\<close> returns the pickled user and raises on anything else.
\<close>

datatype bytes = Pickle UserAuth | Raw string

definition pickle_dumps :: "UserAuth \<Rightarrow> bytes" where
  "pickle_dumps user = Pickle user"

fun pickle_loads :: "bytes \<Rightarrow> exn + UserAuth" where
  "pickle_loads (Pickle user) = Inr user"
| "pickle_loads (Raw s) = Inl UnpicklingError"

text \<open>
  The Redis store: each key holds a value and, when one is set, its time to live in
  seconds. \<^verbatim>\<open>GET\<close> returns the value or \<^verbatim>\<open>None\<close>; \<^verbatim>\<open>SET\<close> stores the value and clears any
  time to live; \<^verbatim>\<open>EXPIRE\<close> sets the time to live of an existing key and does nothing on a
  missing one. The store is taken to answer: a connection error is not modelled.
\<close>

record entry =
  val :: bytes
  ttl :: "nat option"

type_synonym redis = "string \<rightharpoonup> entry"

definition redis_get :: "redis \<Rightarrow> string \<Rightarrow> bytes option" where
  "redis_get r key = map_option val (r key)"

definition redis_set :: "redis \<Rightarrow> string \<Rightarrow> bytes \<Rightarrow> redis" where
  "redis_set r key v = r(key \<mapsto> \<lparr>val = v, ttl = None\<rparr>)"

definition redis_expire :: "redis \<Rightarrow> string \<Rightarrow> nat \<Rightarrow> redis" where
  "redis_expire r key seconds =
     (case r key of None \<Rightarrow> r | Some e \<Rightarrow> r(key \<mapsto> e\<lparr>ttl := Some seconds\<rparr>))"

text \<open>The calls a function makes to its collaborators, in order.\<close>

datatype call =
    RedisGet string
  | RedisSet string bytes
  | RedisExpire string nat
  | DbGetUserByEmail string

section \<open>The session resolver\<close>

definition credentials_exception :: exn where
  "credentials_exception =
     HTTPException 401 ''Could not validate credentials'' [(''WWW-Authenticate'', ''Bearer'')]"

text \<open>
  The \<^verbatim>\<open>try\<close> block of \<^verbatim>\<open>get_current_user\<close>: the subject of an access token, or the exception
  that leaves the block. \<^verbatim>\<open>payload["sub"]\<close> of a decoded token is a string whenever the key
  is there (the library rejects any other subject), so the test \<^verbatim>\<open>email is None\<close> is never
  true and has no branch here.
\<close>

definition get_current_user_try :: "Auth \<Rightarrow> token \<Rightarrow> int \<Rightarrow> exn + string" where
  "get_current_user_try self token now =
     (case jwt_decode token (SECRET_KEY self) [ALGORITHM self] now of
        Inl e \<Rightarrow> if is_JWTError e then Inl credentials_exception else Inl e
      | Inr payload \<Rightarrow>
          (case scope payload of
             None \<Rightarrow> Inl (KeyError ''scope'')
           | Some sc \<Rightarrow>
               if sc = ''access_token''
               then (case sub payload of
                       None \<Rightarrow> Inl (KeyError ''sub'')
                     | Some email' \<Rightarrow> Inr email')
               else Inl credentials_exception))"

text \<open>
  \<^verbatim>\<open>get_current_user\<close> at clock reading \<open>now\<close> (in whole seconds, as \<^verbatim>\<open>jwt.decode\<close> reads
  it), on the user table \<open>db\<close> and the store \<open>r\<close>: the outcome, the store afterwards and the
  collaborator calls made.
\<close>

definition get_current_user ::
  "Auth \<Rightarrow> token \<Rightarrow> UserAuth list \<Rightarrow> int \<Rightarrow> redis \<Rightarrow> (exn + UserAuth) \<times> redis \<times> call list" where
  "get_current_user self token db now r =
     (case get_current_user_try self token now of
        Inl e \<Rightarrow> (Inl e, r, [])
      | Inr email' \<Rightarrow>
          (let key = ''user:'' @ email' in
           case redis_get r key of
             None \<Rightarrow>
               (case get_user_by_email email' db of
                  None \<Rightarrow> (Inl credentials_exception, r, [RedisGet key, DbGetUserByEmail email'])
                | Some user \<Rightarrow>
                    (Inr user,
                     redis_expire (redis_set r key (pickle_dumps user)) key 900,
                     [RedisGet key, DbGetUserByEmail email',
                      RedisSet key (pickle_dumps user), RedisExpire key 900]))
           | Some cached \<Rightarrow> (pickle_loads cached, r, [RedisGet key])))"

section \<open>repository/users.py: the contacts table\<close>

text \<open>\<^verbatim>\<open>datetime.date\<close>, by its three attributes.\<close>

record date =
  year :: int
  month :: int
  day :: int

text \<open>\<^verbatim>\<open>d1 <= d2\<close> on dates: by year, then month, then day.\<close>

definition date_le :: "date \<Rightarrow> date \<Rightarrow> bool" where
  "date_le d1 d2 =
     (year d1 < year d2
      \<or> (year d1 = year d2
          \<and> (month d1 < month d2 \<or> (month d1 = month d2 \<and> day d1 \<le> day d2))))"

text \<open>
  \<^verbatim>\<open>schemas.py\<close> and \<^verbatim>\<open>database/models.py\<close> are not among the sources. The request body
  \<^verbatim>\<open>UserSchema\<close> and the ORM class \<^verbatim>\<open>User\<close> are given the attributes that \<^verbatim>\<open>create_users\<close>
  copies from one to the other, and \<^verbatim>\<open>User\<close> the primary key \<^verbatim>\<open>id\<close> besides (the field
  \<open>id'\<close>). The table is the list of its rows, in the order \<^verbatim>\<open>db.query(User).all()\<close>
  returns them.
\<close>

record UserSchema =
  first_name :: string
  last_name :: string
  birthday_date :: date
  email :: string
  phone_numbers :: string
  other_description :: string

record User =
  id' :: int
  first_name :: string
  last_name :: string
  birthday_date :: date
  email :: string
  phone_numbers :: string
  other_description :: string

text \<open>The loop of \<^verbatim>\<open>get_birthday\<close>, with \<open>result\<close> the list built so far.\<close>

fun get_birthday_loop :: "date \<Rightarrow> date \<Rightarrow> User list \<Rightarrow> User list \<Rightarrow> User list" where
  "get_birthday_loop today end_date [] result = result"
| "get_birthday_loop today end_date (user # users) result =
     (if month (birthday_date user) \<ge> month today \<and> day (birthday_date user) \<ge> day today
         \<and> month (birthday_date user) \<le> month end_date \<and> day (birthday_date user) \<le> day end_date
      then get_birthday_loop today end_date users (result @ [user])
      else get_birthday_loop today end_date users result)"

definition get_birthday :: "date \<Rightarrow> date \<Rightarrow> User list \<Rightarrow> User list" where
  "get_birthday today end_date db = get_birthday_loop today end_date db []"

text \<open>
  The loop of \<^verbatim>\<open>search_users\<close>: three independent tests on each row, each appending the row
  when its criterion is given and matches. The parameters \<^verbatim>\<open>first_name\<close>, \<^verbatim>\<open>last_name\<close> and
  \<^verbatim>\<open>email\<close> are \<open>fn\<close>, \<open>ln\<close> and \<open>em\<close> here, the names being those of the record fields.
\<close>

fun search_users_loop ::
  "string option \<Rightarrow> string option \<Rightarrow> string option \<Rightarrow> User list \<Rightarrow> User list \<Rightarrow> User list" where
  "search_users_loop fn ln em [] result = result"
| "search_users_loop fn ln em (user # users) result =
     (let result1 = (case fn of
                       None \<Rightarrow> result
                     | Some f \<Rightarrow> if first_name user = f then result @ [user] else result);
          result2 = (case ln of
                       None \<Rightarrow> result1
                     | Some l \<Rightarrow> if last_name user = l then result1 @ [user] else result1);
          result3 = (case em of
                       None \<Rightarrow> result2
                     | Some e \<Rightarrow> if email user = e then result2 @ [user] else result2)
      in search_users_loop fn ln em users result3)"

definition search_users ::
  "string option \<Rightarrow> string option \<Rightarrow> string option \<Rightarrow> User list \<Rightarrow> User list" where
  "search_users fn ln em db = search_users_loop fn ln em db []"

text \<open>
  \<^verbatim>\<open>db.commit()\<close> after the attributes of a loaded row were assigned: the row the object was
  loaded from, the first with its primary key, now holds the object's attributes.
\<close>

fun commit_row :: "User \<Rightarrow> User list \<Rightarrow> User list" where
  "commit_row user [] = []"
| "commit_row user (row # rows) =
     (if id' row = id' user then user # rows else row # commit_row user rows)"

text \<open>\<^verbatim>\<open>update_user\<close>: the returned object (\<^verbatim>\<open>None\<close> when no row has the id) and the table afterwards.\<close>

definition update_user :: "int \<Rightarrow> UserSchema \<Rightarrow> User list \<Rightarrow> User option \<times> User list" where
  "update_user user_id body db =
     (case find (\<lambda>u. id' u = user_id) db of
        None \<Rightarrow> (None, db)
      | Some user \<Rightarrow>
          (let user1 = user\<lparr>first_name := UserSchema.first_name body\<rparr>;
               user2 = user1\<lparr>last_name := UserSchema.last_name body\<rparr>;
               user3 = user2\<lparr>phone_numbers := UserSchema.phone_numbers body\<rparr>;
               user4 = user3\<lparr>email := UserSchema.email body\<rparr>;
               user5 = user4\<lparr>other_description := UserSchema.other_description body\<rparr>
           in (Some user5, commit_row user5 db)))"

section \<open>Properties of the token codec and the session resolver\<close>

text \<open>The library raises nothing but \<^verbatim>\<open>JWTError\<close> and its subclasses.\<close>

lemma jwt_decode_raises: "jwt_decode token key algorithms now = Inl e \<Longrightarrow> is_JWTError e"
  by (cases token) (auto split: if_splits option.splits)

lemma pickle_loads_dumps: "pickle_loads (pickle_dumps user) = Inr user"
  by (simp add: pickle_dumps_def)

text \<open>Whole seconds added to a datetime are whole seconds added to its \<^verbatim>\<open>timegm\<close>.\<close>

lemma timegm_add_seconds: "timegm (d + n * 1000000) = timegm d + n"
  by (simp add: timegm_def)

text \<open>
  What the issuers return, case by case: the token with the computed \<^verbatim>\<open>exp\<close>, or the
  exception of the datetime arithmetic.
\<close>

lemma create_email_token_eq:
  "create_email_token self data utcnow utcnow_iat =
     (if datetime_in_range (utcnow + timedelta_days 7)
      then Inr (Signed (SECRET_KEY self) (ALGORITHM self)
                  (data\<lparr>iat := Some (timegm utcnow_iat), exp := Some (timegm utcnow + 7 * 86400)\<rparr>))
      else Inl OverflowError)"
  using timegm_add_seconds [of utcnow "7 * 86400"]
  by (simp add: create_email_token_def datetime_add_def timedelta_days_def jwt_encode_def)

lemma create_access_token_default:
  "create_access_token self data None utcnow utcnow_iat =
     (if datetime_in_range (utcnow + timedelta_minutes 15)
      then Inr (Signed (SECRET_KEY self) (ALGORITHM self)
                  (data\<lparr>iat := Some (timegm utcnow_iat), exp := Some (timegm utcnow + 15 * 60),
                        scope := Some ''access_token''\<rparr>))
      else Inl OverflowError)"
  using timegm_add_seconds [of utcnow "15 * 60"]
  by (simp add: create_access_token_def datetime_add_def timedelta_minutes_def jwt_encode_def)

lemma create_refresh_token_default:
  "create_refresh_token self data None utcnow utcnow_iat =
     (if datetime_in_range (utcnow + timedelta_days 7)
      then Inr (Signed (SECRET_KEY self) (ALGORITHM self)
                  (data\<lparr>iat := Some (timegm utcnow_iat), exp := Some (timegm utcnow + 7 * 86400),
                        scope := Some ''refresh_token''\<rparr>))
      else Inl OverflowError)"
  using timegm_add_seconds [of utcnow "7 * 86400"]
  by (simp add: create_refresh_token_def datetime_add_def timedelta_days_def jwt_encode_def)

lemma create_access_token_delta:
  "create_access_token self data (Some x) utcnow utcnow_iat =
     (if float_bool x
      then (case timedelta_seconds x of
              Inl e \<Rightarrow> Inl e
            | Inr td \<Rightarrow>
                if datetime_in_range (utcnow + td)
                then Inr (Signed (SECRET_KEY self) (ALGORITHM self)
                            (data\<lparr>iat := Some (timegm utcnow_iat),
                                  exp := Some (timegm (utcnow + td)),
                                  scope := Some ''access_token''\<rparr>))
                else Inl OverflowError)
      else create_access_token self data None utcnow utcnow_iat)"
  by (simp add: create_access_token_def datetime_add_def jwt_encode_def split: sum.splits)

lemma create_refresh_token_delta:
  "create_refresh_token self data (Some x) utcnow utcnow_iat =
     (if float_bool x
      then (case timedelta_seconds x of
              Inl e \<Rightarrow> Inl e
            | Inr td \<Rightarrow>
                if datetime_in_range (utcnow + td)
                then Inr (Signed (SECRET_KEY self) (ALGORITHM self)
                            (data\<lparr>iat := Some (timegm utcnow_iat),
                                  exp := Some (timegm (utcnow + td)),
                                  scope := Some ''refresh_token''\<rparr>))
                else Inl OverflowError)
      else create_refresh_token self data None utcnow utcnow_iat)"
  by (simp add: create_refresh_token_def datetime_add_def jwt_encode_def split: sum.splits)

text \<open>Every token an issuer returns is signed by the service and carries the issuer's scope.\<close>

lemma create_access_token_Inr:
  assumes "create_access_token self data expires_delta utcnow utcnow_iat = Inr tok"
  shows "\<exists>e. tok = Signed (SECRET_KEY self) (ALGORITHM self)
                 (data\<lparr>iat := Some (timegm utcnow_iat), exp := Some e,
                       scope := Some ''access_token''\<rparr>)"
proof (cases expires_delta)
  case None
  with assms show ?thesis
    by (auto simp: create_access_token_default split: if_splits)
next
  case (Some x)
  with assms show ?thesis
    by (auto simp: create_access_token_delta create_access_token_default
        split: if_splits sum.splits)
qed

lemma create_refresh_token_Inr:
  assumes "create_refresh_token self data expires_delta utcnow utcnow_iat = Inr tok"
  shows "\<exists>e. tok = Signed (SECRET_KEY self) (ALGORITHM self)
                 (data\<lparr>iat := Some (timegm utcnow_iat), exp := Some e,
                       scope := Some ''refresh_token''\<rparr>)"
proof (cases expires_delta)
  case None
  with assms show ?thesis
    by (auto simp: create_refresh_token_default split: if_splits)
next
  case (Some x)
  with assms show ?thesis
    by (auto simp: create_refresh_token_delta create_refresh_token_default
        split: if_splits sum.splits)
qed

lemma create_email_token_Inr:
  assumes "create_email_token self data utcnow utcnow_iat = Inr tok"
  shows "\<exists>e. tok = Signed (SECRET_KEY self) (ALGORITHM self)
                 (data\<lparr>iat := Some (timegm utcnow_iat), exp := Some e\<rparr>)"
  using assms by (auto simp: create_email_token_eq split: if_splits)

text \<open>
  A token that \<^verbatim>\<open>jwt.decode\<close> rejects, for whatever reason, and a token whose scope is not
  \<^verbatim>\<open>access_token\<close> both end in \<open>credentials_exception\<close>, before the store or the table is
  touched.
\<close>

lemma get_current_user_decode_failure:
  assumes "jwt_decode token (SECRET_KEY self) [ALGORITHM self] now = Inl e"
  shows "get_current_user self token db now r = (Inl credentials_exception, r, [])"
  using assms jwt_decode_raises [OF assms]
  by (simp add: get_current_user_def get_current_user_try_def)

lemma get_current_user_wrong_scope:
  assumes "jwt_decode token (SECRET_KEY self) [ALGORITHM self] now = Inr payload"
    and "scope payload = Some sc" and "sc \<noteq> ''access_token''"
  shows "get_current_user self token db now r = (Inl credentials_exception, r, [])"
  using assms by (simp add: get_current_user_def get_current_user_try_def)

text \<open>
  A validly signed access token without \<^verbatim>\<open>sub\<close>, issued from an empty dictionary at second
  1000 and presented at second 1030: \<^verbatim>\<open>payload["sub"]\<close> raises \<^verbatim>\<open>KeyError\<close>.
\<close>

lemma get_current_user_no_subject_KeyError:
  "create_access_token auth_service
     \<lparr>sub = None, scope = None, exp = None, iat = None\<rparr> None 1000000000 1000000000
   = Inr (Signed ''secret_key'' HS256
            \<lparr>sub = None, scope = Some ''access_token'', exp = Some 1900, iat = Some 1000\<rparr>)
   \<and> get_current_user auth_service
       (Signed ''secret_key'' HS256
          \<lparr>sub = None, scope = Some ''access_token'', exp = Some 1900, iat = Some 1000\<rparr>)
       [] 1030 Map.empty
     = (Inl (KeyError ''sub''), Map.empty, [])"
  by (simp add: get_current_user_def get_current_user_try_def create_access_token_default
      datetime_in_range_def datetime_min_def datetime_max_def timedelta_minutes_def timegm_def
      auth_service_def)

text \<open>
  C1. The resolver is to answer every token it cannot accept with the one 401 outcome,
  a missing scope or subject included. An email-verification token is validly signed and
  carries no \<^verbatim>\<open>scope\<close>: on it \<^verbatim>\<open>payload['scope']\<close> raises \<^verbatim>\<open>KeyError\<close>, which
  \<^verbatim>\<open>except JWTError\<close> does not catch, so the resolver leaves with \<^verbatim>\<open>KeyError\<close> and not with
  \<open>credentials_exception\<close>. The token is the one \<^verbatim>\<open>create_email_token\<close> issues for
  \<^verbatim>\<open>{"sub": "a@b.c"}\<close> at second 1000, presented at second 2000.
\<close>

theorem get_current_user_email_token_KeyError:
  "create_email_token auth_service
     \<lparr>sub = Some ''a@b.c'', scope = None, exp = None, iat = None\<rparr> 1000000000 1000000000
   = Inr (Signed ''secret_key'' HS256
            \<lparr>sub = Some ''a@b.c'', scope = None, exp = Some 605800, iat = Some 1000\<rparr>)
   \<and> get_current_user auth_service
       (Signed ''secret_key'' HS256
          \<lparr>sub = Some ''a@b.c'', scope = None, exp = Some 605800, iat = Some 1000\<rparr>)
       [] 2000 Map.empty
     = (Inl (KeyError ''scope''), Map.empty, [])"
  by (simp add: get_current_user_def get_current_user_try_def create_email_token_eq
      datetime_in_range_def datetime_min_def datetime_max_def timedelta_days_def timegm_def
      auth_service_def)

text \<open>
  C2. Every access token the service issues fails in \<^verbatim>\<open>decode_refresh_token\<close> with status
  401, and every refresh token it issues fails in \<^verbatim>\<open>get_current_user\<close> with
  \<open>credentials_exception\<close> without a call to the store or the table; this holds for every
  claim dictionary and \<^verbatim>\<open>expires_delta\<close> the tokens were issued from and at every clock
  reading, so in particular while the token has not expired.
\<close>

theorem token_scopes_not_interchangeable:
  "(create_access_token self data expires_delta utcnow utcnow_iat = Inr access \<longrightarrow>
      decode_refresh_token self access now
        \<in> {Inl (HTTPException 401 ''Invalid scope for token'' []),
           Inl (HTTPException 401 ''Could not validate credentials'' [])})
   \<and> (create_refresh_token self data' expires_delta' utcnow' utcnow_iat' = Inr refresh \<longrightarrow>
      get_current_user self refresh db now r = (Inl credentials_exception, r, []))"
proof (intro conjI impI)
  assume "create_access_token self data expires_delta utcnow utcnow_iat = Inr access"
  then obtain e where "access = Signed (SECRET_KEY self) (ALGORITHM self)
      (data\<lparr>iat := Some (timegm utcnow_iat), exp := Some e, scope := Some ''access_token''\<rparr>)"
    using create_access_token_Inr by blast
  then show "decode_refresh_token self access now
        \<in> {Inl (HTTPException 401 ''Invalid scope for token'' []),
           Inl (HTTPException 401 ''Could not validate credentials'' [])}"
    by (simp add: decode_refresh_token_def)
next
  assume "create_refresh_token self data' expires_delta' utcnow' utcnow_iat' = Inr refresh"
  then obtain e where "refresh = Signed (SECRET_KEY self) (ALGORITHM self)
      (data'\<lparr>iat := Some (timegm utcnow_iat'), exp := Some e, scope := Some ''refresh_token''\<rparr>)"
    using create_refresh_token_Inr by blast
  then show "get_current_user self refresh db now r = (Inl credentials_exception, r, [])"
    by (simp add: get_current_user_def get_current_user_try_def)
qed

theorem token_scopes_not_interchangeable_witness:
  "create_access_token auth_service
     \<lparr>sub = Some ''a@b.c'', scope = None, exp = None, iat = None\<rparr> None 1000000000 1000000000
   = Inr (Signed ''secret_key'' HS256
            \<lparr>sub = Some ''a@b.c'', scope = Some ''access_token'', exp = Some 1900,
             iat = Some 1000\<rparr>)
   \<and> create_refresh_token auth_service
       \<lparr>sub = Some ''a@b.c'', scope = None, exp = None, iat = None\<rparr> None 1000000000 1000000000
     = Inr (Signed ''secret_key'' HS256
              \<lparr>sub = Some ''a@b.c'', scope = Some ''refresh_token'', exp = Some 605800,
               iat = Some 1000\<rparr>)
   \<and> decode_refresh_token auth_service
       (Signed ''secret_key'' HS256
          \<lparr>sub = Some ''a@b.c'', scope = Some ''access_token'', exp = Some 1900,
           iat = Some 1000\<rparr>)
       1030
     = Inl (HTTPException 401 ''Invalid scope for token'' [])
   \<and> get_current_user auth_service
       (Signed ''secret_key'' HS256
          \<lparr>sub = Some ''a@b.c'', scope = Some ''refresh_token'', exp = Some 605800,
           iat = Some 1000\<rparr>)
       [] 1030 Map.empty
     = (Inl credentials_exception, Map.empty, [])"
proof -
  let ?data = "\<lparr>sub = Some ''a@b.c'', scope = None, exp = None, iat = None\<rparr>"
  let ?access = "Signed ''secret_key'' HS256
      \<lparr>sub = Some ''a@b.c'', scope = Some ''access_token'', exp = Some 1900, iat = Some 1000\<rparr>"
  let ?refresh = "Signed ''secret_key'' HS256
      \<lparr>sub = Some ''a@b.c'', scope = Some ''refresh_token'', exp = Some 605800, iat = Some 1000\<rparr>"
  have a: "create_access_token auth_service ?data None 1000000000 1000000000 = Inr ?access"
    by (simp add: create_access_token_default datetime_in_range_def datetime_min_def
        datetime_max_def timedelta_minutes_def timegm_def auth_service_def)
  have b: "create_refresh_token auth_service ?data None 1000000000 1000000000 = Inr ?refresh"
    by (simp add: create_refresh_token_default datetime_in_range_def datetime_min_def
        datetime_max_def timedelta_days_def timegm_def auth_service_def)
  have c: "decode_refresh_token auth_service ?access 1030
             = Inl (HTTPException 401 ''Invalid scope for token'' [])"
    by (simp add: decode_refresh_token_def auth_service_def)
  show ?thesis
    using a b c
      token_scopes_not_interchangeable [where self = auth_service and data = ?data
        and expires_delta = None and utcnow = 1000000000 and utcnow_iat = 1000000000
        and access = ?access and data' = ?data and expires_delta' = None
        and utcnow' = 1000000000 and utcnow_iat' = 1000000000 and refresh = ?refresh
        and db = "[]" and now = 1030 and r = Map.empty]
    by simp
qed

text \<open>
  C3, as the code has it. Round trip of issuing and decoding, for a claim dictionary whose
  subject is the email and for every token the issuer returns: up to and including the
  second \<^verbatim>\<open>exp\<close> the refresh token decodes to the email with \<^verbatim>\<open>decode_refresh_token\<close>, the
  access token to the email in the \<^verbatim>\<open>try\<close> block of \<^verbatim>\<open>get_current_user\<close> and the email
  token to the email with \<^verbatim>\<open>get_email_from_token\<close>. After \<^verbatim>\<open>exp\<close> each of the three fails
  with its one failure for every token the library rejects, the 401, the
  \<open>credentials_exception\<close> and the 422, which is also what it answers to a string that is
  no token: the failure does not tell an expired token from any other rejected one.
\<close>

theorem issue_decode_roundtrip:
  assumes "sub data = Some email'"
  shows "(create_refresh_token self data expires_delta utcnow utcnow_iat = Inr tok_r
            \<and> exp (signed_claims tok_r) = Some e_r \<longrightarrow>
          decode_refresh_token self tok_r now
            = (if now \<le> e_r then Inr email'
               else Inl (HTTPException 401 ''Could not validate credentials'' [])))
       \<and> (create_access_token self data expires_delta utcnow utcnow_iat = Inr tok_a
            \<and> exp (signed_claims tok_a) = Some e_a \<longrightarrow>
          get_current_user_try self tok_a now
            = (if now \<le> e_a then Inr email' else Inl credentials_exception))
       \<and> (create_email_token self data utcnow utcnow_iat = Inr tok_v
            \<and> exp (signed_claims tok_v) = Some e_v \<longrightarrow>
          get_email_from_token self tok_v now
            = (if now \<le> e_v then Inr email'
               else Inl (HTTPException 422 ''Invalid token for email verification'' [])))
       \<and> decode_refresh_token self (Malformed s) now
            = Inl (HTTPException 401 ''Could not validate credentials'' [])
       \<and> get_current_user_try self (Malformed s) now = Inl credentials_exception
       \<and> get_email_from_token self (Malformed s) now
            = Inl (HTTPException 422 ''Invalid token for email verification'' [])"
proof (intro conjI impI)
  assume "create_refresh_token self data expires_delta utcnow utcnow_iat = Inr tok_r
            \<and> exp (signed_claims tok_r) = Some e_r"
  then show "decode_refresh_token self tok_r now
            = (if now \<le> e_r then Inr email'
               else Inl (HTTPException 401 ''Could not validate credentials'' []))"
    using assms create_refresh_token_Inr [of self data expires_delta utcnow utcnow_iat tok_r]
    by (auto simp: decode_refresh_token_def)
next
  assume "create_access_token self data expires_delta utcnow utcnow_iat = Inr tok_a
            \<and> exp (signed_claims tok_a) = Some e_a"
  then show "get_current_user_try self tok_a now
            = (if now \<le> e_a then Inr email' else Inl credentials_exception)"
    using assms create_access_token_Inr [of self data expires_delta utcnow utcnow_iat tok_a]
    by (auto simp: get_current_user_try_def)
next
  assume "create_email_token self data utcnow utcnow_iat = Inr tok_v
            \<and> exp (signed_claims tok_v) = Some e_v"
  then show "get_email_from_token self tok_v now
            = (if now \<le> e_v then Inr email'
               else Inl (HTTPException 422 ''Invalid token for email verification'' []))"
    using assms create_email_token_Inr [of self data utcnow utcnow_iat tok_v]
    by (auto simp: get_email_from_token_def)
qed (simp_all add: decode_refresh_token_def get_current_user_try_def get_email_from_token_def)

theorem issue_decode_roundtrip_witness:
  "sub \<lparr>sub = Some ''a@b.c'', scope = None, exp = None, iat = None\<rparr> = Some ''a@b.c''
   \<and> create_refresh_token auth_service
       \<lparr>sub = Some ''a@b.c'', scope = None, exp = None, iat = None\<rparr>
       (Some (Finite 60 0)) 1000000000 1000000000
     = Inr (Signed ''secret_key'' HS256
              \<lparr>sub = Some ''a@b.c'', scope = Some ''refresh_token'', exp = Some 1060,
               iat = Some 1000\<rparr>)
   \<and> create_access_token auth_service
       \<lparr>sub = Some ''a@b.c'', scope = None, exp = None, iat = None\<rparr>
       (Some (Finite 60 0)) 1000000000 1000000000
     = Inr (Signed ''secret_key'' HS256
              \<lparr>sub = Some ''a@b.c'', scope = Some ''access_token'', exp = Some 1060,
               iat = Some 1000\<rparr>)
   \<and> create_email_token auth_service
       \<lparr>sub = Some ''a@b.c'', scope = None, exp = None, iat = None\<rparr> 1000000000 1000000000
     = Inr (Signed ''secret_key'' HS256
              \<lparr>sub = Some ''a@b.c'', scope = None, exp = Some 605800, iat = Some 1000\<rparr>)
   \<and> decode_refresh_token auth_service
       (Signed ''secret_key'' HS256
          \<lparr>sub = Some ''a@b.c'', scope = Some ''refresh_token'', exp = Some 1060,
           iat = Some 1000\<rparr>)
       1030
     = Inr ''a@b.c''
   \<and> get_current_user_try auth_service
       (Signed ''secret_key'' HS256
          \<lparr>sub = Some ''a@b.c'', scope = Some ''access_token'', exp = Some 1060,
           iat = Some 1000\<rparr>)
       1030
     = Inr ''a@b.c''
   \<and> get_email_from_token auth_service
       (Signed ''secret_key'' HS256
          \<lparr>sub = Some ''a@b.c'', scope = None, exp = Some 605800, iat = Some 1000\<rparr>)
       1030
     = Inr ''a@b.c''"
proof -
  let ?data = "\<lparr>sub = Some ''a@b.c'', scope = None, exp = None, iat = None\<rparr>"
  let ?tok_r = "Signed ''secret_key'' HS256
      \<lparr>sub = Some ''a@b.c'', scope = Some ''refresh_token'', exp = Some 1060, iat = Some 1000\<rparr>"
  let ?tok_a = "Signed ''secret_key'' HS256
      \<lparr>sub = Some ''a@b.c'', scope = Some ''access_token'', exp = Some 1060, iat = Some 1000\<rparr>"
  let ?tok_v = "Signed ''secret_key'' HS256
      \<lparr>sub = Some ''a@b.c'', scope = None, exp = Some 605800, iat = Some 1000\<rparr>"
  have h: "sub ?data = Some ''a@b.c''"
    by simp
  have r: "create_refresh_token auth_service ?data (Some (Finite 60 0)) 1000000000 1000000000
             = Inr ?tok_r"
    by (simp add: create_refresh_token_delta timedelta_in_range_def datetime_in_range_def
        datetime_min_def datetime_max_def timegm_def auth_service_def)
  have a: "create_access_token auth_service ?data (Some (Finite 60 0)) 1000000000 1000000000
             = Inr ?tok_a"
    by (simp add: create_access_token_delta timedelta_in_range_def datetime_in_range_def
        datetime_min_def datetime_max_def timegm_def auth_service_def)
  have v: "create_email_token auth_service ?data 1000000000 1000000000 = Inr ?tok_v"
    by (simp add: create_email_token_eq datetime_in_range_def datetime_min_def
        datetime_max_def timedelta_days_def timegm_def auth_service_def)
  show ?thesis
    using h r a v
      issue_decode_roundtrip [OF h, where self = auth_service
        and expires_delta = "Some (Finite 60 0)" and utcnow = 1000000000
        and utcnow_iat = 1000000000 and tok_r = ?tok_r and e_r = 1060 and tok_a = ?tok_a
        and e_a = 1060 and tok_v = ?tok_v and e_v = 605800 and now = 1030]
    by simp
qed

text \<open>
  C3 as stated fails after \<^verbatim>\<open>exp\<close>: the refresh token issued at second 1000 for 60 seconds
  and decoded at second 2000 does not fail with a failure of the expiry kind. The failure
  of \<^verbatim>\<open>decode_refresh_token\<close> is the 401 with the detail \<^verbatim>\<open>Could not validate credentials\<close>,
  the very value it returns on a string that is no token, and it is not the library's
  \<^verbatim>\<open>ExpiredSignatureError\<close>, which \<^verbatim>\<open>except JWTError\<close> has caught.
\<close>

theorem expired_token_generic_failure_counterexample:
  "create_refresh_token auth_service
     \<lparr>sub = Some ''a@b.c'', scope = None, exp = None, iat = None\<rparr>
     (Some (Finite 60 0)) 1000000000 1000000000
   = Inr (Signed ''secret_key'' HS256
            \<lparr>sub = Some ''a@b.c'', scope = Some ''refresh_token'', exp = Some 1060,
             iat = Some 1000\<rparr>)
   \<and> decode_refresh_token auth_service
       (Signed ''secret_key'' HS256
          \<lparr>sub = Some ''a@b.c'', scope = Some ''refresh_token'', exp = Some 1060,
           iat = Some 1000\<rparr>)
       2000
     = Inl (HTTPException 401 ''Could not validate credentials'' [])
   \<and> decode_refresh_token auth_service (Malformed ''garbage'') 2000
     = Inl (HTTPException 401 ''Could not validate credentials'' [])
   \<and> decode_refresh_token auth_service
       (Signed ''secret_key'' HS256
          \<lparr>sub = Some ''a@b.c'', scope = Some ''refresh_token'', exp = Some 1060,
           iat = Some 1000\<rparr>)
       2000
     \<noteq> Inl ExpiredSignatureError"
  by (simp add: create_refresh_token_delta timedelta_in_range_def datetime_in_range_def
      datetime_min_def datetime_max_def timegm_def decode_refresh_token_def auth_service_def)

text \<open>
  C4. After a successful decode of an access token with subject \<open>email'\<close>: when the store
  has an entry under \<^verbatim>\<open>"user:" + email\<close>, the unpickled entry is returned, the store is
  unchanged and the only call is the \<^verbatim>\<open>GET\<close>; when it has none, the table is queried: no
  row gives \<open>credentials_exception\<close>, and a row is returned after its pickle has been stored
  under that key with a time to live of 900 seconds, every other key unchanged.
\<close>

theorem get_current_user_cache:
  assumes "jwt_decode token (SECRET_KEY self) [ALGORITHM self] now = Inr payload"
    and "scope payload = Some ''access_token''"
    and "sub payload = Some email'"
  shows "get_current_user self token db now r =
           (case redis_get r (''user:'' @ email') of
              Some cached \<Rightarrow> (pickle_loads cached, r, [RedisGet (''user:'' @ email')])
            | None \<Rightarrow>
                (case get_user_by_email email' db of
                   None \<Rightarrow>
                     (Inl credentials_exception, r,
                      [RedisGet (''user:'' @ email'), DbGetUserByEmail email'])
                 | Some user \<Rightarrow>
                     (Inr user,
                      r(''user:'' @ email' \<mapsto> \<lparr>val = pickle_dumps user, ttl = Some 900\<rparr>),
                      [RedisGet (''user:'' @ email'), DbGetUserByEmail email',
                       RedisSet (''user:'' @ email') (pickle_dumps user),
                       RedisExpire (''user:'' @ email') 900])))"
  using assms
  by (simp add: get_current_user_def get_current_user_try_def redis_set_def redis_expire_def
      Let_def split: option.splits)

theorem get_current_user_cache_witness:
  "create_access_token auth_service
     \<lparr>sub = Some ''a@b.c'', scope = None, exp = None, iat = None\<rparr> None 1000000000 1000000000
   = Inr (Signed ''secret_key'' HS256
            \<lparr>sub = Some ''a@b.c'', scope = Some ''access_token'', exp = Some 1900,
             iat = Some 1000\<rparr>)
   \<and> jwt_decode
       (Signed ''secret_key'' HS256
          \<lparr>sub = Some ''a@b.c'', scope = Some ''access_token'', exp = Some 1900,
           iat = Some 1000\<rparr>)
       (SECRET_KEY auth_service) [ALGORITHM auth_service] 1030
     = Inr \<lparr>sub = Some ''a@b.c'', scope = Some ''access_token'', exp = Some 1900, iat = Some 1000\<rparr>
   \<and> get_current_user auth_service
       (Signed ''secret_key'' HS256
          \<lparr>sub = Some ''a@b.c'', scope = Some ''access_token'', exp = Some 1900,
           iat = Some 1000\<rparr>)
       [\<lparr>UserAuth.email = ''a@b.c'', password = ''$2b$12$h'', confirmed = True,
         refresh_token = None, avatar = None\<rparr>]
       1030 Map.empty
     = (Inr \<lparr>UserAuth.email = ''a@b.c'', password = ''$2b$12$h'', confirmed = True,
              refresh_token = None, avatar = None\<rparr>,
        [''user:a@b.c'' \<mapsto>
           \<lparr>val = Pickle \<lparr>UserAuth.email = ''a@b.c'', password = ''$2b$12$h'', confirmed = True,
                             refresh_token = None, avatar = None\<rparr>,
            ttl = Some 900\<rparr>],
        [RedisGet ''user:a@b.c'', DbGetUserByEmail ''a@b.c'',
         RedisSet ''user:a@b.c''
           (Pickle \<lparr>UserAuth.email = ''a@b.c'', password = ''$2b$12$h'', confirmed = True,
                     refresh_token = None, avatar = None\<rparr>),
         RedisExpire ''user:a@b.c'' 900])
   \<and> get_current_user auth_service
       (Signed ''secret_key'' HS256
          \<lparr>sub = Some ''a@b.c'', scope = Some ''access_token'', exp = Some 1900,
           iat = Some 1000\<rparr>)
       []
       1030
       [''user:a@b.c'' \<mapsto>
          \<lparr>val = Pickle \<lparr>UserAuth.email = ''a@b.c'', password = ''$2b$12$h'', confirmed = True,
                            refresh_token = None, avatar = None\<rparr>,
           ttl = Some 900\<rparr>]
     = (Inr \<lparr>UserAuth.email = ''a@b.c'', password = ''$2b$12$h'', confirmed = True,
              refresh_token = None, avatar = None\<rparr>,
        [''user:a@b.c'' \<mapsto>
           \<lparr>val = Pickle \<lparr>UserAuth.email = ''a@b.c'', password = ''$2b$12$h'', confirmed = True,
                             refresh_token = None, avatar = None\<rparr>,
            ttl = Some 900\<rparr>],
        [RedisGet ''user:a@b.c''])"
proof -
  let ?payload =
    "\<lparr>sub = Some ''a@b.c'', scope = Some ''access_token'', exp = Some 1900, iat = Some 1000\<rparr>"
  let ?token = "Signed ''secret_key'' HS256 ?payload"
  let ?user = "\<lparr>UserAuth.email = ''a@b.c'', password = ''$2b$12$h'', confirmed = True,
                refresh_token = None, avatar = None\<rparr>"
  have issued: "create_access_token auth_service
                  \<lparr>sub = Some ''a@b.c'', scope = None, exp = None, iat = None\<rparr>
                  None 1000000000 1000000000 = Inr ?token"
    by (simp add: create_access_token_default datetime_in_range_def datetime_min_def
        datetime_max_def timedelta_minutes_def timegm_def auth_service_def)
  have h1: "jwt_decode ?token (SECRET_KEY auth_service) [ALGORITHM auth_service] 1030
              = Inr ?payload"
    by (simp add: auth_service_def)
  have h2: "scope ?payload = Some ''access_token''"
    by simp
  have h3: "sub ?payload = Some ''a@b.c''"
    by simp
  have miss: "get_current_user auth_service ?token [?user] 1030 Map.empty
                = (Inr ?user, [''user:a@b.c'' \<mapsto> \<lparr>val = Pickle ?user, ttl = Some 900\<rparr>],
                   [RedisGet ''user:a@b.c'', DbGetUserByEmail ''a@b.c'',
                    RedisSet ''user:a@b.c'' (Pickle ?user), RedisExpire ''user:a@b.c'' 900])"
    using get_current_user_cache [OF h1 h2 h3, where db = "[?user]" and r = Map.empty]
    by (simp add: pickle_dumps_def redis_get_def get_user_by_email_def)
  have hit: "get_current_user auth_service ?token [] 1030
               [''user:a@b.c'' \<mapsto> \<lparr>val = Pickle ?user, ttl = Some 900\<rparr>]
                = (Inr ?user, [''user:a@b.c'' \<mapsto> \<lparr>val = Pickle ?user, ttl = Some 900\<rparr>],
                   [RedisGet ''user:a@b.c''])"
    using get_current_user_cache [OF h1 h2 h3, where db = "[]"
        and r = "[''user:a@b.c'' \<mapsto> \<lparr>val = Pickle ?user, ttl = Some 900\<rparr>]"]
    by (simp add: redis_get_def)
  show ?thesis
    using issued h1 miss hit by simp
qed

text \<open>
  What \<^verbatim>\<open>get_email_from_token\<close> does by its \<^verbatim>\<open>except\<close> clause: every failure of
  \<^verbatim>\<open>jwt.decode\<close> becomes the 422, and a decoded token with a subject gives the subject.
\<close>

lemma get_email_from_token_decode_failure:
  assumes "jwt_decode token (SECRET_KEY self) [ALGORITHM self] now = Inl e"
  shows "get_email_from_token self token now
           = Inl (HTTPException 422 ''Invalid token for email verification'' [])"
  using assms jwt_decode_raises [OF assms] by (simp add: get_email_from_token_def)

lemma get_email_from_token_subject:
  assumes "jwt_decode token (SECRET_KEY self) [ALGORITHM self] now = Inr payload"
    and "sub payload = Some email'"
  shows "get_email_from_token self token now = Inr email'"
  using assms by (simp add: get_email_from_token_def)

text \<open>
  C5. \<^verbatim>\<open>get_email_from_token\<close> is to end in the subject or in the 422 and in nothing else.
  On a validly signed, unexpired token without \<^verbatim>\<open>sub\<close>, here the one
  \<^verbatim>\<open>create_email_token\<close> issues from an empty dictionary at second 1000, presented at second
  2000, \<^verbatim>\<open>payload["sub"]\<close> raises \<^verbatim>\<open>KeyError\<close>, which \<^verbatim>\<open>except JWTError\<close> does not catch.
\<close>

theorem get_email_from_token_no_subject_KeyError:
  "create_email_token auth_service
     \<lparr>sub = None, scope = None, exp = None, iat = None\<rparr> 1000000000 1000000000
   = Inr (Signed ''secret_key'' HS256
            \<lparr>sub = None, scope = None, exp = Some 605800, iat = Some 1000\<rparr>)
   \<and> get_email_from_token auth_service
       (Signed ''secret_key'' HS256
          \<lparr>sub = None, scope = None, exp = Some 605800, iat = Some 1000\<rparr>)
       2000
     = Inl (KeyError ''sub'')"
  by (simp add: get_email_from_token_def create_email_token_eq datetime_in_range_def
      datetime_min_def datetime_max_def timedelta_days_def timegm_def auth_service_def)

text \<open>
  C6, as the code has it. Without \<^verbatim>\<open>expires_delta\<close> an access token expires 15 minutes and
  a refresh token 7 days after the clock reading, and an email token always 7 days after
  it, \<^verbatim>\<open>exp\<close> being the whole second of the reading plus 900 and plus 604800. A float
  \<^verbatim>\<open>expires_delta\<close> that is true replaces the default: \<^verbatim>\<open>exp\<close> is the whole second of the
  reading plus \<^verbatim>\<open>timedelta(seconds=expires_delta)\<close>, which for a whole number \<open>d\<close> of seconds
  other than 0 is the whole second of the reading plus \<open>d\<close>. An \<^verbatim>\<open>expires_delta\<close> that is
  zero takes the default as \<^verbatim>\<open>None\<close> does. In every case no token is issued and
  \<^verbatim>\<open>OverflowError\<close> is raised when the expiry is not a datetime or the delta not a
  timedelta, and \<^verbatim>\<open>ValueError\<close> when the delta is \<^verbatim>\<open>nan\<close>.
\<close>

theorem token_lifetimes:
  "create_access_token self data None utcnow utcnow_iat =
     (if datetime_in_range (utcnow + timedelta_minutes 15)
      then Inr (Signed (SECRET_KEY self) (ALGORITHM self)
                  (data\<lparr>iat := Some (timegm utcnow_iat), exp := Some (timegm utcnow + 15 * 60),
                        scope := Some ''access_token''\<rparr>))
      else Inl OverflowError)
   \<and> create_refresh_token self data None utcnow utcnow_iat =
     (if datetime_in_range (utcnow + timedelta_days 7)
      then Inr (Signed (SECRET_KEY self) (ALGORITHM self)
                  (data\<lparr>iat := Some (timegm utcnow_iat), exp := Some (timegm utcnow + 7 * 86400),
                        scope := Some ''refresh_token''\<rparr>))
      else Inl OverflowError)
   \<and> create_email_token self data utcnow utcnow_iat =
     (if datetime_in_range (utcnow + timedelta_days 7)
      then Inr (Signed (SECRET_KEY self) (ALGORITHM self)
                  (data\<lparr>iat := Some (timegm utcnow_iat), exp := Some (timegm utcnow + 7 * 86400)\<rparr>))
      else Inl OverflowError)
   \<and> create_access_token self data (Some (Finite d 0)) utcnow utcnow_iat =
     (if d = 0 then create_access_token self data None utcnow utcnow_iat
      else if timedelta_in_range (d * 1000000) \<and> datetime_in_range (utcnow + d * 1000000)
      then Inr (Signed (SECRET_KEY self) (ALGORITHM self)
                  (data\<lparr>iat := Some (timegm utcnow_iat), exp := Some (timegm utcnow + d),
                        scope := Some ''access_token''\<rparr>))
      else Inl OverflowError)
   \<and> create_refresh_token self data (Some (Finite d 0)) utcnow utcnow_iat =
     (if d = 0 then create_refresh_token self data None utcnow utcnow_iat
      else if timedelta_in_range (d * 1000000) \<and> datetime_in_range (utcnow + d * 1000000)
      then Inr (Signed (SECRET_KEY self) (ALGORITHM self)
                  (data\<lparr>iat := Some (timegm utcnow_iat), exp := Some (timegm utcnow + d),
                        scope := Some ''refresh_token''\<rparr>))
      else Inl OverflowError)
   \<and> create_access_token self data (Some x) utcnow utcnow_iat =
     (if float_bool x
      then (case timedelta_seconds x of
              Inl e \<Rightarrow> Inl e
            | Inr td \<Rightarrow>
                if datetime_in_range (utcnow + td)
                then Inr (Signed (SECRET_KEY self) (ALGORITHM self)
                            (data\<lparr>iat := Some (timegm utcnow_iat),
                                  exp := Some (timegm (utcnow + td)),
                                  scope := Some ''access_token''\<rparr>))
                else Inl OverflowError)
      else create_access_token self data None utcnow utcnow_iat)
   \<and> create_refresh_token self data (Some x) utcnow utcnow_iat =
     (if float_bool x
      then (case timedelta_seconds x of
              Inl e \<Rightarrow> Inl e
            | Inr td \<Rightarrow>
                if datetime_in_range (utcnow + td)
                then Inr (Signed (SECRET_KEY self) (ALGORITHM self)
                            (data\<lparr>iat := Some (timegm utcnow_iat),
                                  exp := Some (timegm (utcnow + td)),
                                  scope := Some ''refresh_token''\<rparr>))
                else Inl OverflowError)
      else create_refresh_token self data None utcnow utcnow_iat)
   \<and> create_access_token self data (Some NaN) utcnow utcnow_iat = Inl ValueError
   \<and> create_refresh_token self data (Some NaN) utcnow utcnow_iat = Inl ValueError"
proof -
  have whole_a: "create_access_token self data (Some (Finite d 0)) utcnow utcnow_iat =
     (if d = 0 then create_access_token self data None utcnow utcnow_iat
      else if timedelta_in_range (d * 1000000) \<and> datetime_in_range (utcnow + d * 1000000)
      then Inr (Signed (SECRET_KEY self) (ALGORITHM self)
                  (data\<lparr>iat := Some (timegm utcnow_iat), exp := Some (timegm utcnow + d),
                        scope := Some ''access_token''\<rparr>))
      else Inl OverflowError)"
    by (simp add: create_access_token_delta timegm_add_seconds)
  have whole_r: "create_refresh_token self data (Some (Finite d 0)) utcnow utcnow_iat =
     (if d = 0 then create_refresh_token self data None utcnow utcnow_iat
      else if timedelta_in_range (d * 1000000) \<and> datetime_in_range (utcnow + d * 1000000)
      then Inr (Signed (SECRET_KEY self) (ALGORITHM self)
                  (data\<lparr>iat := Some (timegm utcnow_iat), exp := Some (timegm utcnow + d),
                        scope := Some ''refresh_token''\<rparr>))
      else Inl OverflowError)"
    by (simp add: create_refresh_token_delta timegm_add_seconds)
  show ?thesis
    using whole_a whole_r create_access_token_default [of self data utcnow utcnow_iat]
      create_refresh_token_default [of self data utcnow utcnow_iat]
      create_email_token_eq [of self data utcnow utcnow_iat]
      create_access_token_delta [of self data x utcnow utcnow_iat]
      create_refresh_token_delta [of self data x utcnow utcnow_iat]
    by (simp add: create_access_token_delta create_refresh_token_delta)
qed

text \<open>
  C6 as stated fails where a supplied \<^verbatim>\<open>expires_delta\<close> does not give a token expiring at
  the reading plus the delta. Issued at second 1000 with \<^verbatim>\<open>expires_delta = 0\<close>, the access
  token expires at second 1900 and not at second 1000; with \<^verbatim>\<open>expires_delta = 1e12\<close> no
  token is issued, \<^verbatim>\<open>OverflowError\<close> being raised by the datetime addition.
\<close>

theorem expires_delta_counterexample:
  "create_access_token auth_service
     \<lparr>sub = Some ''a@b.c'', scope = None, exp = None, iat = None\<rparr>
     (Some (Finite 0 0)) 1000000000 1000000000
   = Inr (Signed ''secret_key'' HS256
            \<lparr>sub = Some ''a@b.c'', scope = Some ''access_token'', exp = Some 1900,
             iat = Some 1000\<rparr>)
   \<and> create_access_token auth_service
       \<lparr>sub = Some ''a@b.c'', scope = None, exp = None, iat = None\<rparr>
       (Some (Finite 1000000000000 0)) 1000000000 1000000000
     = Inl OverflowError"
  by (simp add: create_access_token_delta create_access_token_default timedelta_in_range_def
      datetime_in_range_def datetime_min_def datetime_max_def timedelta_minutes_def timegm_def
      auth_service_def)

section \<open>Properties of the credential hasher\<close>

text \<open>
  C7. \<^verbatim>\<open>verify_password\<close> is to return a boolean for every hash string, false on a malformed
  one, as its docstring says (true if the passwords match, false otherwise). On the
  string \<^verbatim>\<open>not-a-hash\<close>, which carries no bcrypt identifier, the hashing context raises
  \<^verbatim>\<open>UnknownHashError\<close> before any handler is asked, and \<^verbatim>\<open>verify_password\<close>, which has no
  handler of its own, leaves with that exception, whatever the context's bcrypt handler.
\<close>

theorem verify_password_malformed_hash_raises:
  "verify_password pwd_context ''password'' ''not-a-hash'' = Inl UnknownHashError"
  by (simp add: verify_password_def CryptContext_verify_def bcrypt_identify_def
      bcrypt_ident_values_def)

section \<open>Properties of the contacts queries\<close>

text \<open>\<^verbatim>\<open>get_birthday\<close> selects the rows that pass its four comparisons, in table order.\<close>

lemma get_birthday_loop_filter:
  "get_birthday_loop today end_date db result
     = result @ filter (\<lambda>user. month (birthday_date user) \<ge> month today
                              \<and> day (birthday_date user) \<ge> day today
                              \<and> month (birthday_date user) \<le> month end_date
                              \<and> day (birthday_date user) \<le> day end_date) db"
  by (induction db arbitrary: result) simp_all

text \<open>
  C8. A range that crosses a month boundary and a birthday inside it that \<^verbatim>\<open>get_birthday\<close>
  leaves out: from 28 January 2024 to 4 February 2024, the seven days \<^verbatim>\<open>read_birthdays\<close>
  asks for on that day, a contact born on 30 January 1990 has the birthday on 30 January
  2024, within the range, and the query on the table holding this contact returns the
  empty list: the day 30 fails the test \<^verbatim>\<open>day <= end_date.day\<close>, which compares days of
  different months.
\<close>

theorem get_birthday_month_rollover:
  "month \<lparr>year = 2024, month = 1, day = 28\<rparr> < month \<lparr>year = 2024, month = 2, day = 4\<rparr>
   \<and> date_le \<lparr>year = 2024, month = 1, day = 28\<rparr>
        (\<lparr>year = 1990, month = 1, day = 30\<rparr>\<lparr>year := 2024\<rparr>)
   \<and> date_le (\<lparr>year = 1990, month = 1, day = 30\<rparr>\<lparr>year := 2024\<rparr>)
        \<lparr>year = 2024, month = 2, day = 4\<rparr>
   \<and> get_birthday \<lparr>year = 2024, month = 1, day = 28\<rparr> \<lparr>year = 2024, month = 2, day = 4\<rparr>
        [\<lparr>id' = 1, first_name = ''Ann'', last_name = ''Lee'',
          birthday_date = \<lparr>year = 1990, month = 1, day = 30\<rparr>, email = ''ann@b.c'',
          phone_numbers = ''123'', other_description = ''''\<rparr>]
       = []"
  by (simp add: get_birthday_def date_le_def)

text \<open>
  The number of times a row value occurs in the result of the search loop: the occurrences
  already in \<open>result\<close>, and for each occurrence in the table one per criterion that is given
  and matches.
\<close>

lemma search_users_loop_count:
  "count_list (search_users_loop fn ln em db result) u
     = count_list result u
       + count_list db u * (of_bool (fn = Some (first_name u)) + of_bool (ln = Some (last_name u))
                            + of_bool (em = Some (email u)))"
  by (induction db arbitrary: result) (auto simp: Let_def split: option.splits)

text \<open>
  C9. In the result of \<^verbatim>\<open>search_users\<close> a user occurs once per criterion that is given and
  matches, for each of its rows in the table; searched by its own first name, last name
  and email together, it occurs three times per row.
\<close>

theorem search_users_duplicates:
  "count_list (search_users fn ln em db) u
     = count_list db u * (of_bool (fn = Some (first_name u)) + of_bool (ln = Some (last_name u))
                          + of_bool (em = Some (email u)))
   \<and> count_list (search_users (Some (first_name u)) (Some (last_name u)) (Some (email u)) db) u
     = 3 * count_list db u"
  by (simp add: search_users_def search_users_loop_count)

text \<open>Committing an object loaded by its id changes the row it was loaded from and no other.\<close>

lemma commit_row_rows:
  assumes "id' user' = user_id"
  shows "find (\<lambda>u. id' u = user_id) db = Some user \<Longrightarrow>
         list_all2 (\<lambda>row row'. row' = row \<or> (row = user \<and> row' = user')) db (commit_row user' db)"
proof (induction db)
  case Nil
  then show ?case by simp
next
  case (Cons row rows)
  show ?case
  proof (cases "id' row = user_id")
    case True
    with Cons.prems have "row = user" by simp
    with True assms show ?thesis by (simp add: list_all2_same)
  next
    case False
    with Cons assms show ?thesis by simp
  qed
qed

text \<open>
  C10. \<^verbatim>\<open>update_user\<close> on an id no row has returns \<^verbatim>\<open>None\<close> and leaves the table as it
  is. On the id of a row it returns that row with \<^verbatim>\<open>first_name\<close>, \<^verbatim>\<open>last_name\<close>,
  \<^verbatim>\<open>phone_numbers\<close>, \<^verbatim>\<open>email\<close> and \<^verbatim>\<open>other_description\<close> taken from the body and every other
  field as before, and in the table afterwards each row is either unchanged or is that
  row with these five fields replaced. In both cases the birthdays and the ids of the
  table, row by row, are what they were, and the returned object has the birthday of the
  row it was loaded from.
\<close>

theorem update_user_frame:
  "(case find (\<lambda>u. id' u = user_id) db of
      None \<Rightarrow> update_user user_id body db = (None, db)
    | Some user \<Rightarrow>
        fst (update_user user_id body db)
          = Some (user\<lparr>first_name := UserSchema.first_name body,
                       last_name := UserSchema.last_name body,
                       phone_numbers := UserSchema.phone_numbers body,
                       email := UserSchema.email body,
                       other_description := UserSchema.other_description body\<rparr>)
        \<and> list_all2
            (\<lambda>row row'. row' = row
               \<or> (row = user
                   \<and> row' = row\<lparr>first_name := UserSchema.first_name body,
                                 last_name := UserSchema.last_name body,
                                 phone_numbers := UserSchema.phone_numbers body,
                                 email := UserSchema.email body,
                                 other_description := UserSchema.other_description body\<rparr>))
            db (snd (update_user user_id body db)))
   \<and> map_option birthday_date (fst (update_user user_id body db))
       = map_option birthday_date (find (\<lambda>u. id' u = user_id) db)
   \<and> map birthday_date (snd (update_user user_id body db)) = map birthday_date db
   \<and> map id' (snd (update_user user_id body db)) = map id' db"
proof (cases "find (\<lambda>u. id' u = user_id) db")
  case None
  then show ?thesis by (simp add: update_user_def)
next
  case (Some user)
  let ?user' = "user\<lparr>first_name := UserSchema.first_name body,
                       last_name := UserSchema.last_name body,
                       phone_numbers := UserSchema.phone_numbers body,
                       email := UserSchema.email body,
                       other_description := UserSchema.other_description body\<rparr>"
  from Some have uid: "id' user = user_id"
    by (auto simp: find_Some_iff)
  have upd: "update_user user_id body db = (Some ?user', commit_row ?user' db)"
    using Some by (simp add: update_user_def Let_def)
  have rows: "list_all2 (\<lambda>row row'. row' = row \<or> (row = user \<and> row' = ?user'))
                db (commit_row ?user' db)"
    using commit_row_rows [of ?user' user_id db user] uid Some by simp
  have "map birthday_date (commit_row ?user' db) = map birthday_date db"
    using rows by (induction rule: list_all2_induct) auto
  moreover have "map id' (commit_row ?user' db) = map id' db"
    using rows by (induction rule: list_all2_induct) auto
  moreover have "list_all2 (\<lambda>row row'. row' = row \<or> (row = user \<and> row' = row\<lparr>first_name := UserSchema.first_name body,
                                 last_name := UserSchema.last_name body,
                                 phone_numbers := UserSchema.phone_numbers body,
                                 email := UserSchema.email body,
                                 other_description := UserSchema.other_description body\<rparr>))
                db (commit_row ?user' db)"
    using rows by (rule list_all2_mono) auto
  ultimately show ?thesis
    using Some upd by simp
qed

end
